theory Spec2Isabelle
  imports Main
begin

section \<open>Data model\<close>

text \<open>
  The tables of the fuller-featured application (\<^verbatim>\<open>src/ecommerce_project/ecommerce\<close>),
  with the fields its views, forms and admin classes read and write. Each table is the list
  of its rows in insertion order. A \<^verbatim>\<open>DecimalField\<close> with two decimal places is held as an
  integer number of hundredths, so that sums and products are exact as they are for Python's
  \<^verbatim>\<open>Decimal\<close>; Python's unbounded \<^verbatim>\<open>int\<close> is \<^typ>\<open>int\<close>.
\<close>

datatype user_type = Buyer | Vendor

record User =
  user_id :: nat
  user_type :: user_type

text \<open>
  Modelled from the spec: \<^verbatim>\<open>User.is_buyer\<close> is declared in \<^verbatim>\<open>models.py\<close> of the fuller
  variant, which is not among the sources; the spec gives a user the role tag buyer or vendor.
\<close>

definition is_buyer :: "User \<Rightarrow> bool" where
  "is_buyer u = (user_type u = Buyer)"

record Product =
  product_id :: nat
  product_name :: string
  store_vendor :: nat
  price :: int
  quantity_in_stock :: int
  is_active :: bool

record Cart =
  cart_id :: nat
  session_key :: string

record CartItem =
  item_id :: nat
  item_cart :: nat
  item_product :: nat
  quantity :: int

text \<open>
  The status column of an order. The \<^verbatim>\<open>Order\<close> model and its status values are declared
  in the absent \<^verbatim>\<open>models.py\<close>; \<open>DefaultStatus\<close> is the value that the model gives an
  order created without one, \<open>Status s\<close> a value written later (the admin lists and
  filters orders by it).
\<close>

datatype order_status = DefaultStatus | Status string

record Order =
  order_id :: nat
  buyer :: nat
  total_amount :: int
  shipping_address :: string
  status :: order_status

record OrderItem =
  oi_order :: nat
  oi_product :: nat
  oi_quantity :: int
  price_at_purchase :: int

record Review =
  review_product :: nat
  review_buyer :: nat
  rating :: int
  review_comment :: string
  is_verified :: bool

record db =
  products :: "Product list"
  carts :: "Cart list"
  cart_items :: "CartItem list"
  orders :: "Order list"
  order_items :: "OrderItem list"
  reviews :: "Review list"

text \<open>
  A product's \<open>store_vendor\<close> is the vendor of its store (\<^verbatim>\<open>store__vendor\<close> in the queries).
  An order's \<open>order_id\<close> is its external identifier, by which the order items refer to it
  as well. Fields that none of the views below reads or writes in a way that matters here
  are left out: descriptions, categories, images, timestamps and the store's own fields.
  No view in the sources reads or sets an order's status.
\<close>

text \<open>The HTTP method; \<open>GET\<close> stands for every method other than POST.\<close>

datatype http_method = GET | POST

text \<open>
  A request as the views read it: the logged-in user (\<open>None\<close> is the anonymous user), the
  session key of the cookie (\<open>None\<close> when the session has none yet), the key that
  \<^verbatim>\<open>request.session.create()\<close> hands out when it is called, and the HTTP method.
\<close>

record request =
  req_user :: "User option"
  req_session_key :: "string option"
  new_session_key :: string
  http_method :: http_method

text \<open>
  \<^verbatim>\<open>request.session.session_key\<close> as the views test it: \<^verbatim>\<open>None\<close> and the empty string
  both count as no key.
\<close>

definition session_key_of :: "request \<Rightarrow> string option" where
  "session_key_of request =
     (case req_session_key request of None \<Rightarrow> None | Some k \<Rightarrow> if k = [] then None else Some k)"

section \<open>Queries of the object-relational layer\<close>

text \<open>A fresh primary key: one above every key in use (an auto-incremented column).\<close>

definition next_pk :: "nat list \<Rightarrow> nat" where
  "next_pk ks = Suc (fold max ks 0)"

text \<open>\<^verbatim>\<open>Product.objects.filter(id=...)\<close>; the primary key is unique, so the first match is the row.\<close>

definition Product_get :: "nat \<Rightarrow> db \<Rightarrow> Product option" where
  "Product_get pid d = find (\<lambda>p. product_id p = pid) (products d)"

text \<open>
  \<^verbatim>\<open>product.save()\<close>: every field of the instance is written to the row with its primary
  key; a row is inserted when none has that key.
\<close>

definition Product_save :: "Product \<Rightarrow> db \<Rightarrow> db" where
  "Product_save p d =
     (if list_ex (\<lambda>r. product_id r = product_id p) (products d)
      then d\<lparr>products := map (\<lambda>r. if product_id r = product_id p then p else r) (products d)\<rparr>
      else d\<lparr>products := products d @ [p]\<rparr>)"

text \<open>
  \<^verbatim>\<open>Cart.objects.get(session_key=...)\<close>, \<open>None\<close> for \<^verbatim>\<open>Cart.DoesNotExist\<close>; there is
  one cart per session key, so the first match is the row.
\<close>

definition Cart_get :: "string \<Rightarrow> db \<Rightarrow> Cart option" where
  "Cart_get k d = find (\<lambda>c. session_key c = k) (carts d)"

text \<open>\<^verbatim>\<open>cart.items.all()\<close>: the lines of a cart.\<close>

definition Cart_items :: "Cart \<Rightarrow> db \<Rightarrow> CartItem list" where
  "Cart_items c d = filter (\<lambda>i. item_cart i = cart_id c) (cart_items d)"

text \<open>
  \<^verbatim>\<open>.select_related('product', ...)\<close>: each line comes joined with its own copy of the
  product row as it is when the query runs (an inner join on the foreign key).
\<close>

definition select_related :: "CartItem list \<Rightarrow> db \<Rightarrow> (CartItem \<times> Product) list" where
  "select_related items d =
     List.map_filter (\<lambda>i. map_option (Pair i) (Product_get (item_product i) d)) items"

text \<open>
  Modelled from the spec: \<^verbatim>\<open>Cart.get_total_price\<close>, \<^verbatim>\<open>Cart.get_total_items\<close> and
  \<^verbatim>\<open>CartItem.get_total_price\<close> are methods of \<^verbatim>\<open>models.py\<close> of the fuller variant, which
  is not among the sources. The spec: total price is the sum of item price times quantity
  over active items; total items is the sum of quantities. Each call reads the stored rows.
\<close>

definition CartItem_get_total_price :: "CartItem \<times> Product \<Rightarrow> int" where
  "CartItem_get_total_price ip = price (snd ip) * quantity (fst ip)"

definition get_total_price :: "Cart \<Rightarrow> db \<Rightarrow> int" where
  "get_total_price c d =
     sum_list (map CartItem_get_total_price
       (filter (\<lambda>ip. is_active (snd ip)) (select_related (Cart_items c d) d)))"

definition get_total_items :: "Cart \<Rightarrow> db \<Rightarrow> int" where
  "get_total_items c d = sum_list (map quantity (Cart_items c d))"

text \<open>
  Modelled from the spec: the order identifier is filled in by a default of the \<^verbatim>\<open>Order\<close>
  model (\<^verbatim>\<open>models.py\<close> of the fuller variant, not among the sources); the spec calls it
  freshly generated and unique. Here it is the least number above every identifier in use.
\<close>

definition fresh_order_id :: "db \<Rightarrow> nat" where
  "fresh_order_id d = next_pk (map order_id (orders d))"

text \<open>
  \<^verbatim>\<open>Order.objects.create(buyer=..., total_amount=..., shipping_address=...)\<close>: no status is
  passed, so the order has the model's default.
\<close>

definition Order_create :: "nat \<Rightarrow> int \<Rightarrow> string \<Rightarrow> db \<Rightarrow> Order \<times> db" where
  "Order_create b t a d =
     (let order = \<lparr>order_id = fresh_order_id d, buyer = b, total_amount = t,
                    shipping_address = a, status = DefaultStatus\<rparr>
      in (order, d\<lparr>orders := orders d @ [order]\<rparr>))"

text \<open>\<^verbatim>\<open>OrderItem.objects.create(order=..., product=..., quantity=..., price_at_purchase=...)\<close>.\<close>

definition OrderItem_create :: "Order \<Rightarrow> Product \<Rightarrow> int \<Rightarrow> int \<Rightarrow> db \<Rightarrow> db" where
  "OrderItem_create order product q pr d =
     d\<lparr>order_items := order_items d @
       [\<lparr>oi_order = order_id order, oi_product = product_id product, oi_quantity = q,
         price_at_purchase = pr\<rparr>]\<rparr>"

text \<open>
  Modelled from the spec: \<^verbatim>\<open>cart.delete()\<close> removes the cart and, the lines being owned by
  their cart, all its lines (the foreign key is declared in the absent \<^verbatim>\<open>models.py\<close>).
\<close>

definition Cart_delete :: "Cart \<Rightarrow> db \<Rightarrow> db" where
  "Cart_delete c d =
     d\<lparr>carts := filter (\<lambda>r. cart_id r \<noteq> cart_id c) (carts d),
       cart_items := filter (\<lambda>i. item_cart i \<noteq> cart_id c) (cart_items d)\<rparr>"

section \<open>Checkout\<close>

text \<open>
  Lines 506 to 514 of \<^verbatim>\<open>checkout\<close>: the cart of the session's key; \<open>None\<close> when the session
  has no key or no cart has that key.
\<close>

definition session_cart :: "request \<Rightarrow> db \<Rightarrow> Cart option" where
  "session_cart request d =
     (case session_key_of request of None \<Rightarrow> None | Some k \<Rightarrow> Cart_get k d)"

datatype checkout_result =
    CheckoutLoginRequired
  | CheckoutAccessDenied
  | EmptyCartError
  | CheckoutPage
  | MissingShippingAddressError
  | InsufficientStockError string
  | OrderPlaced nat

text \<open>
  The loop of \<^verbatim>\<open>checkout\<close> over the lines fetched at the top of the view. A line whose
  joined product has enough stock gets its order item and the product is saved with the
  stock reduced; the first line that has not ends the view with the product's name, and
  whatever the earlier lines wrote stays written.
\<close>

fun create_order_items :: "Order \<Rightarrow> (CartItem \<times> Product) list \<Rightarrow> db \<Rightarrow> string option \<times> db" where
  "create_order_items order [] d = (None, d)"
| "create_order_items order ((cart_item, product) # rest) d =
     (if quantity_in_stock product \<ge> quantity cart_item
      then create_order_items order rest
             (Product_save (product\<lparr>quantity_in_stock := quantity_in_stock product - quantity cart_item\<rparr>)
               (OrderItem_create order product (quantity cart_item) (price product) d))
      else (Some (product_name product), d))"

text \<open>
  The view \<^verbatim>\<open>checkout\<close> (\<^verbatim>\<open>views.py\<close>, lines 499 to 563). The second argument is
  \<^verbatim>\<open>request.POST.get('shipping_address')\<close>. The results stand for the responses:
  the redirect to the login page of \<^verbatim>\<open>@login_required\<close>; the redirect home with
  "Access denied"; the redirect to the cart with "Your cart is empty."; the checkout page
  (plain, with "Shipping address is required.", or with "Insufficient stock for" and the
  product's name); the redirect to the confirmation of the new order.
\<close>

definition checkout :: "request \<Rightarrow> string option \<Rightarrow> db \<Rightarrow> checkout_result \<times> db" where
  "checkout request shipping d =
     (case req_user request of
        None \<Rightarrow> (CheckoutLoginRequired, d)
      | Some u \<Rightarrow>
          if \<not> is_buyer u then (CheckoutAccessDenied, d)
          else
            (case session_cart request d of
               None \<Rightarrow> (EmptyCartError, d)
             | Some cart \<Rightarrow>
                 let lines = select_related (Cart_items cart d) d in
                 if lines = [] then (EmptyCartError, d)
                 else if http_method request = POST then
                   (case shipping of
                      None \<Rightarrow> (MissingShippingAddressError, d)
                    | Some addr \<Rightarrow>
                        if addr = [] then (MissingShippingAddressError, d)
                        else
                          (case Order_create (user_id u) (get_total_price cart d) addr d of
                             (order, d1) \<Rightarrow>
                               (case create_order_items order lines d1 of
                                  (Some name, d2) \<Rightarrow> (InsufficientStockError name, d2)
                                | (None, d2) \<Rightarrow> (OrderPlaced (order_id order), Cart_delete cart d2))))
                 else (CheckoutPage, d)))"

section \<open>Cart manager\<close>

text \<open>
  \<^verbatim>\<open>get_or_create_cart\<close> (lines 353 to 361): a session without a key gets one, and the cart
  of the session's key is fetched, or created when there is none.
\<close>

definition get_or_create_cart :: "request \<Rightarrow> db \<Rightarrow> Cart \<times> db" where
  "get_or_create_cart request d =
     (let k = (case session_key_of request of None \<Rightarrow> new_session_key request | Some k \<Rightarrow> k)
      in case Cart_get k d of
           Some cart \<Rightarrow> (cart, d)
         | None \<Rightarrow>
             (let cart = \<lparr>cart_id = next_pk (map cart_id (carts d)), session_key = k\<rparr>
              in (cart, d\<lparr>carts := carts d @ [cart]\<rparr>)))"

text \<open>
  The body of a cart request after \<^verbatim>\<open>json.loads\<close> and \<^verbatim>\<open>int(...)\<close>: \<open>BadBody\<close> when either
  raises; otherwise the value under \<^verbatim>\<open>'product_id'\<close> and the one under \<^verbatim>\<open>'quantity'\<close>
  (\<open>None\<close> when the key is absent, which the views read as the default 1).
\<close>

datatype body = BadBody | Body "nat option" "int option"

text \<open>
  Modelled from the spec: the quantity column of a cart line is declared in the absent
  \<^verbatim>\<open>models.py\<close>; the spec makes a line's quantity a positive integer. Creating or saving
  a line with another quantity is refused by the column and raises.
\<close>

definition CartItem_quantity_valid :: "int \<Rightarrow> bool" where
  "CartItem_quantity_valid q = (0 < q)"

definition CartItem_find :: "nat \<Rightarrow> nat \<Rightarrow> db \<Rightarrow> CartItem option" where
  "CartItem_find cid pid d =
     find (\<lambda>i. item_cart i = cid \<and> item_product i = pid) (cart_items d)"

definition CartItem_save :: "CartItem \<Rightarrow> db \<Rightarrow> db" where
  "CartItem_save i d =
     d\<lparr>cart_items := map (\<lambda>r. if item_id r = item_id i then i else r) (cart_items d)\<rparr>"

definition CartItem_delete :: "CartItem \<Rightarrow> db \<Rightarrow> db" where
  "CartItem_delete i d = d\<lparr>cart_items := filter (\<lambda>r. item_id r \<noteq> item_id i) (cart_items d)\<rparr>"

datatype add_to_cart_result =
    AddMethodNotAllowed
  | AddLoginRequired
  | AddException
  | AddInsufficientStock
  | ProductAdded int

text \<open>
  The view \<^verbatim>\<open>add_to_cart\<close> (lines 364 to 400). \<^verbatim>\<open>Product.is_in_stock\<close> is a method of the
  absent \<^verbatim>\<open>models.py\<close> and is the parameter \<open>is_in_stock\<close>. The results: the 405 of
  \<^verbatim>\<open>@require_POST\<close>; the JSON failures "Login required", the text of a caught exception (a
  body that does not parse, the 404 of an unknown or inactive product, a line that the
  quantity column refuses) and "Insufficient stock"; the JSON success with the cart's
  count. The cart that \<^verbatim>\<open>get_or_create_cart\<close> created stays when a later write raises.
\<close>

definition add_to_cart :: "(Product \<Rightarrow> bool) \<Rightarrow> request \<Rightarrow> body \<Rightarrow> db \<Rightarrow> add_to_cart_result \<times> db" where
  "add_to_cart is_in_stock request b d =
     (if http_method request \<noteq> POST then (AddMethodNotAllowed, d)
      else case req_user request of
        None \<Rightarrow> (AddLoginRequired, d)
      | Some u \<Rightarrow>
          if \<not> is_buyer u then (AddLoginRequired, d)
          else
            (case b of
               BadBody \<Rightarrow> (AddException, d)
             | Body pid_opt q_opt \<Rightarrow>
                 let q = (case q_opt of None \<Rightarrow> 1 | Some n \<Rightarrow> n) in
                 (case (case pid_opt of None \<Rightarrow> None
                        | Some pid \<Rightarrow> find (\<lambda>p. product_id p = pid \<and> is_active p) (products d)) of
                    None \<Rightarrow> (AddException, d)
                  | Some product \<Rightarrow>
                      if \<not> is_in_stock product \<or> quantity_in_stock product < q
                      then (AddInsufficientStock, d)
                      else
                        (case get_or_create_cart request d of
                           (cart, d1) \<Rightarrow>
                             (case CartItem_find (cart_id cart) (product_id product) d1 of
                                None \<Rightarrow>
                                  if \<not> CartItem_quantity_valid q then (AddException, d1)
                                  else
                                    (let d2 = d1\<lparr>cart_items := cart_items d1 @
                                           [\<lparr>item_id = next_pk (map item_id (cart_items d1)),
                                             item_cart = cart_id cart,
                                             item_product = product_id product,
                                             quantity = q\<rparr>]\<rparr>
                                     in (ProductAdded (get_total_items cart d2), d2))
                              | Some cart_item \<Rightarrow>
                                  (let q1 = quantity cart_item + q;
                                       q2 = (if q1 > quantity_in_stock product
                                             then quantity_in_stock product else q1)
                                   in if \<not> CartItem_quantity_valid q2 then (AddException, d1)
                                      else
                                        (let d2 = CartItem_save (cart_item\<lparr>quantity := q2\<rparr>) d1
                                         in (ProductAdded (get_total_items cart d2), d2))))))))"

datatype update_cart_item_result =
    UpdateLoginRequired
  | UpdateMethodNotAllowed
  | UpdateAccessDenied
  | UpdateException
  | ItemRemoved
  | OnlyAvailable int
  | CartUpdated int int int

text \<open>
  The view \<^verbatim>\<open>update_cart_item\<close> (lines 444 to 480). The results: the redirect to the login
  page; the 405; the JSON failures "Access denied", the text of a caught exception (no such
  line in the session's cart, a body that does not parse, a quantity that the column
  refuses) and "Only n items available";
  the JSON successes "Item removed from cart" and "Cart updated" with the line's total, the
  cart's total and the cart's count.
\<close>

definition update_cart_item :: "request \<Rightarrow> nat \<Rightarrow> body \<Rightarrow> db \<Rightarrow> update_cart_item_result \<times> db" where
  "update_cart_item request iid b d =
     (case req_user request of
        None \<Rightarrow> (UpdateLoginRequired, d)
      | Some u \<Rightarrow>
          if http_method request \<noteq> POST then (UpdateMethodNotAllowed, d)
          else if \<not> is_buyer u then (UpdateAccessDenied, d)
          else
            (case get_or_create_cart request d of
               (cart, d1) \<Rightarrow>
                 (case find (\<lambda>i. item_id i = iid \<and> item_cart i = cart_id cart) (cart_items d1) of
                    None \<Rightarrow> (UpdateException, d1)
                  | Some cart_item \<Rightarrow>
                      (case b of
                         BadBody \<Rightarrow> (UpdateException, d1)
                       | Body pid_opt q_opt \<Rightarrow>
                           let new_quantity = (case q_opt of None \<Rightarrow> 1 | Some n \<Rightarrow> n) in
                           if new_quantity \<le> 0 then (ItemRemoved, CartItem_delete cart_item d1)
                           else
                             (case Product_get (item_product cart_item) d1 of
                                None \<Rightarrow> (UpdateException, d1)
                              | Some product \<Rightarrow>
                                  if new_quantity > quantity_in_stock product
                                  then (OnlyAvailable (quantity_in_stock product), d1)
                                  else if \<not> CartItem_quantity_valid new_quantity
                                  then (UpdateException, d1)
                                  else
                                    (let saved = cart_item\<lparr>quantity := new_quantity\<rparr>;
                                         d2 = CartItem_save saved d1
                                     in (CartUpdated (CartItem_get_total_price (saved, product))
                                           (get_total_price cart d2) (get_total_items cart d2),
                                         d2)))))))"

datatype remove_from_cart_result =
    RemoveLoginRequired
  | RemoveAccessDenied
  | RemoveNotFound
  | RemoveServerError
  | RemovedFromCart string

text \<open>
  The view \<^verbatim>\<open>remove_from_cart\<close> (lines 483 to 496). Reading the name of a line's product
  raises when the product row is gone, before the line is deleted.
\<close>

definition remove_from_cart :: "request \<Rightarrow> nat \<Rightarrow> db \<Rightarrow> remove_from_cart_result \<times> db" where
  "remove_from_cart request iid d =
     (case req_user request of
        None \<Rightarrow> (RemoveLoginRequired, d)
      | Some u \<Rightarrow>
          if \<not> is_buyer u then (RemoveAccessDenied, d)
          else
            (case get_or_create_cart request d of
               (cart, d1) \<Rightarrow>
                 (case find (\<lambda>i. item_id i = iid \<and> item_cart i = cart_id cart) (cart_items d1) of
                    None \<Rightarrow> (RemoveNotFound, d1)
                  | Some cart_item \<Rightarrow>
                      (case Product_get (item_product cart_item) d1 of
                         None \<Rightarrow> (RemoveServerError, d1)
                       | Some product \<Rightarrow>
                           (RemovedFromCart (product_name product), CartItem_delete cart_item d1)))))"

section \<open>Reviews\<close>

datatype add_review_result =
    ReviewLoginRequired
  | OnlyBuyersCanReview
  | ReviewProductNotFound
  | DuplicateReviewError
  | ReviewAdded
  | ReviewNotSaved

text \<open>
  Modelled from the spec: \<^verbatim>\<open>ReviewForm\<close> takes its rating choices from
  \<^verbatim>\<open>Review.RATING_CHOICES\<close> of the absent \<^verbatim>\<open>models.py\<close>; the spec gives a rating as an
  integer from 1 to 5.
\<close>

definition ReviewForm_is_valid :: "int \<Rightarrow> string \<Rightarrow> bool" where
  "ReviewForm_is_valid r c = (1 \<le> r \<and> r \<le> 5)"

text \<open>
  \<^verbatim>\<open>OrderItem.objects.filter(order__buyer=user, product=product).exists()\<close>: some order item
  of the product belongs to an order whose buyer is the user.
\<close>

definition has_purchased :: "nat \<Rightarrow> nat \<Rightarrow> db \<Rightarrow> bool" where
  "has_purchased uid pid d =
     list_ex (\<lambda>oi. oi_product oi = pid \<and>
                list_ex (\<lambda>order. order_id order = oi_order oi \<and> buyer order = uid) (orders d))
       (order_items d)"

text \<open>
  The view \<^verbatim>\<open>add_review\<close> (lines 138 to 171); the rating and the comment are the posted
  form fields. The results: the redirect to the login page; the redirects to the product's
  page with "Only buyers can leave reviews.", with "You have already reviewed this
  product.", with "Your review has been added successfully!" or with no message; the 404
  of an unknown product.
\<close>

definition add_review :: "request \<Rightarrow> nat \<Rightarrow> int \<Rightarrow> string \<Rightarrow> db \<Rightarrow> add_review_result \<times> db" where
  "add_review request pid r c d =
     (case req_user request of
        None \<Rightarrow> (ReviewLoginRequired, d)
      | Some u \<Rightarrow>
          if \<not> is_buyer u then (OnlyBuyersCanReview, d)
          else
            (case Product_get pid d of
               None \<Rightarrow> (ReviewProductNotFound, d)
             | Some product \<Rightarrow>
                 (case find (\<lambda>rv. review_product rv = product_id product \<and> review_buyer rv = user_id u)
                         (reviews d) of
                    Some existing_review \<Rightarrow> (DuplicateReviewError, d)
                  | None \<Rightarrow>
                      if http_method request = POST \<and> ReviewForm_is_valid r c
                      then (ReviewAdded,
                            d\<lparr>reviews := reviews d @
                              [\<lparr>review_product = product_id product, review_buyer = user_id u,
                                rating = r, review_comment = c,
                                is_verified = has_purchased (user_id u) (product_id product) d\<rparr>]\<rparr>)
                      else (ReviewNotSaved, d))))"

section \<open>Product editing\<close>

record ProductForm =
  form_name :: string
  form_price :: int
  form_quantity_in_stock :: int

datatype edit_product_result =
    EditLoginRequired
  | EditNotFound
  | ProductUpdated
  | EditPage

text \<open>
  The view \<^verbatim>\<open>edit_product\<close> (lines 303 to 317). Of the fields of \<^verbatim>\<open>ProductForm\<close> the model
  keeps the name, the price and the stock. Whether a posted form is valid depends on the
  field declarations of the absent \<^verbatim>\<open>models.py\<close>; it is the parameter \<open>is_valid\<close>.
\<close>

definition edit_product :: "(ProductForm \<Rightarrow> bool) \<Rightarrow> request \<Rightarrow> nat \<Rightarrow> ProductForm \<Rightarrow> db \<Rightarrow> edit_product_result \<times> db" where
  "edit_product is_valid request pid form d =
     (case req_user request of
        None \<Rightarrow> (EditLoginRequired, d)
      | Some u \<Rightarrow>
          (case find (\<lambda>p. product_id p = pid \<and> store_vendor p = user_id u) (products d) of
             None \<Rightarrow> (EditNotFound, d)
           | Some product \<Rightarrow>
               if http_method request = POST then
                 (if is_valid form
                  then (ProductUpdated,
                        Product_save (product\<lparr>product_name := form_name form, price := form_price form,
                                               quantity_in_stock := form_quantity_in_stock form\<rparr>) d)
                  else (EditPage, d))
               else (EditPage, d)))"

section \<open>Order pages\<close>

datatype order_response =
    OrderLoginRequired
  | Http404
  | Render string Order

text \<open>
  \<^verbatim>\<open>get_object_or_404(Order, order_id=order_id, buyer=request.user)\<close>: the order with this
  identifier and this buyer, or the 404.
\<close>

definition get_order_or_404 :: "nat \<Rightarrow> nat \<Rightarrow> db \<Rightarrow> Order option" where
  "get_order_or_404 oid uid d = find (\<lambda>order. order_id order = oid \<and> buyer order = uid) (orders d)"

text \<open>The views \<^verbatim>\<open>order_confirmation\<close> (lines 566 to 571) and \<^verbatim>\<open>order_detail\<close> (596 to 601).\<close>

definition order_confirmation :: "request \<Rightarrow> nat \<Rightarrow> db \<Rightarrow> order_response" where
  "order_confirmation request oid d =
     (case req_user request of
        None \<Rightarrow> OrderLoginRequired
      | Some u \<Rightarrow>
          (case get_order_or_404 oid (user_id u) d of
             None \<Rightarrow> Http404
           | Some order \<Rightarrow> Render ''ecommerce/buyer/order_confirmation.html'' order))"

definition order_detail :: "request \<Rightarrow> nat \<Rightarrow> db \<Rightarrow> order_response" where
  "order_detail request oid d =
     (case req_user request of
        None \<Rightarrow> OrderLoginRequired
      | Some u \<Rightarrow>
          (case get_order_or_404 oid (user_id u) d of
             None \<Rightarrow> Http404
           | Some order \<Rightarrow> Render ''ecommerce/buyer/order_detail.html'' order))"

section \<open>Sequences of cart and checkout operations\<close>

datatype operation =
    AddToCart request body
  | UpdateCartItem request nat body
  | RemoveFromCart request nat
  | Checkout request "string option"

fun step :: "(Product \<Rightarrow> bool) \<Rightarrow> db \<Rightarrow> operation \<Rightarrow> db" where
  "step is_in_stock d (AddToCart request b) = snd (add_to_cart is_in_stock request b d)"
| "step is_in_stock d (UpdateCartItem request iid b) = snd (update_cart_item request iid b d)"
| "step is_in_stock d (RemoveFromCart request iid) = snd (remove_from_cart request iid d)"
| "step is_in_stock d (Checkout request shipping) = snd (checkout request shipping d)"

text \<open>Requests served one after the other, each to completion.\<close>

definition run :: "(Product \<Rightarrow> bool) \<Rightarrow> db \<Rightarrow> operation list \<Rightarrow> db" where
  "run is_in_stock d ops = foldl (step is_in_stock) d ops"


section \<open>Properties stated over the model\<close>

text \<open>Every product has a stock of zero or more.\<close>

definition stock_nonneg :: "db \<Rightarrow> bool" where
  "stock_nonneg d = list_all (\<lambda>p. 0 \<le> quantity_in_stock p) (products d)"

text \<open>The order item that \<^verbatim>\<open>checkout\<close> writes for a joined cart line.\<close>

definition order_item_of :: "Order \<Rightarrow> CartItem \<times> Product \<Rightarrow> OrderItem" where
  "order_item_of order l =
     \<lparr>oi_order = order_id order, oi_product = product_id (snd l), oi_quantity = quantity (fst l),
       price_at_purchase = price (snd l)\<rparr>"

text \<open>The sum over the items of an order of price at purchase times quantity.\<close>

definition order_items_total :: "nat \<Rightarrow> db \<Rightarrow> int" where
  "order_items_total oid d =
     sum_list (map (\<lambda>oi. price_at_purchase oi * oi_quantity oi)
       (filter (\<lambda>oi. oi_order oi = oid) (order_items d)))"

text \<open>
  Line identifiers are unique, and a cart has at most one line for a product.
\<close>

definition lines_unique :: "db \<Rightarrow> bool" where
  "lines_unique d =
     (distinct (map item_id (cart_items d))
      \<and> distinct (map (\<lambda>i. (item_cart i, item_product i)) (cart_items d)))"

section \<open>Example data\<close>

definition alice :: User where
  "alice = \<lparr>user_id = 7, user_type = Buyer\<rparr>"

definition bob :: User where
  "bob = \<lparr>user_id = 8, user_type = Buyer\<rparr>"

definition vendor :: User where
  "vendor = \<lparr>user_id = 3, user_type = Vendor\<rparr>"

definition post_by :: "User \<Rightarrow> request" where
  "post_by u = \<lparr>req_user = Some u, req_session_key = Some ''s1'', new_session_key = ''s2'',
                http_method = POST\<rparr>"

definition product_A :: Product where
  "product_A = \<lparr>product_id = 1, product_name = ''Product A'', store_vendor = 3, price = 1000,
                 quantity_in_stock = 100, is_active = True\<rparr>"

definition product_B :: Product where
  "product_B = \<lparr>product_id = 2, product_name = ''Product B'', store_vendor = 3, price = 500,
                 quantity_in_stock = 1, is_active = True\<rparr>"

text \<open>
  A shop with two products, the empty cart of session \<open>s1\<close>, and one earlier order of
  alice's for one unit of product A.
\<close>

definition shop :: db where
  "shop = \<lparr>products = [product_A, product_B],
           carts = [\<lparr>cart_id = 1, session_key = ''s1''\<rparr>],
           cart_items = [],
           orders = [\<lparr>order_id = 1, buyer = 7, total_amount = 1000, shipping_address = ''1 High St'',
             status = Status ''delivered''\<rparr>],
           order_items = [\<lparr>oi_order = 1, oi_product = 1, oi_quantity = 1, price_at_purchase = 1000\<rparr>],
           reviews = []\<rparr>"

definition line_A :: CartItem where
  "line_A = \<lparr>item_id = 1, item_cart = 1, item_product = 1, quantity = 2\<rparr>"

definition line_B :: CartItem where
  "line_B = \<lparr>item_id = 2, item_cart = 1, item_product = 2, quantity = 2\<rparr>"

lemmas example_defs =
  alice_def bob_def vendor_def post_by_def product_A_def product_B_def shop_def line_A_def line_B_def

lemmas view_defs =
  is_buyer_def session_key_of_def session_cart_def Cart_get_def Cart_items_def select_related_def
  List.map_filter_def Product_get_def Product_save_def Order_create_def fresh_order_id_def
  next_pk_def get_total_price_def get_total_items_def CartItem_get_total_price_def
  OrderItem_create_def Cart_delete_def get_or_create_cart_def CartItem_find_def
  CartItem_save_def CartItem_delete_def CartItem_quantity_valid_def Let_def

section \<open>Auxiliary facts about the queries\<close>

lemma find_conj_filter: "find (\<lambda>x. P x \<and> Q x) xs = find P (filter Q xs)"
  by (induction xs) auto

lemma find_SomeD: "find P xs = Some x \<Longrightarrow> P x \<and> x \<in> set xs"
  by (induction xs) (auto split: if_splits)

lemma Product_get_SomeD: "Product_get pid d = Some p \<Longrightarrow> product_id p = pid \<and> p \<in> set (products d)"
  by (auto simp: Product_get_def dest: find_SomeD)

section \<open>Checkout of an empty cart\<close>

text \<open>
  Claim C5. When an authenticated buyer checks out and the session has no cart, or its
  cart has no lines, \<^verbatim>\<open>checkout\<close> answers with the empty-cart rejection, whatever the HTTP
  method and the posted address, and the database is left as it was: no order is created.
\<close>

theorem checkout_empty_cart_rejected:
  assumes "req_user request = Some u" and "is_buyer u"
    and "session_cart request d = None \<or>
         (\<exists>cart. session_cart request d = Some cart \<and> Cart_items cart d = [])"
  shows "checkout request shipping d = (EmptyCartError, d)"
  using assms by (auto simp: checkout_def select_related_def List.map_filter_def)

theorem checkout_empty_cart_rejected_witness:
  "req_user (post_by alice) = Some alice \<and> is_buyer alice
   \<and> session_cart (post_by alice) shop = Some \<lparr>cart_id = 1, session_key = ''s1''\<rparr>
   \<and> Cart_items \<lparr>cart_id = 1, session_key = ''s1''\<rparr> shop = []
   \<and> checkout (post_by alice) (Some ''123 Main St'') shop = (EmptyCartError, shop)"
  using checkout_empty_cart_rejected [of "post_by alice" alice shop "Some ''123 Main St''"]
  by (simp add: example_defs view_defs)

section \<open>Price freezing\<close>

text \<open>
  Claim C6. Whatever \<^verbatim>\<open>edit_product\<close> does to a product (its price included), the orders
  and the order items are the same rows afterwards, so every existing order item keeps its
  \<^verbatim>\<open>price_at_purchase\<close>.
\<close>

theorem edit_product_keeps_order_items:
  "order_items (snd (edit_product is_valid request pid form d)) = order_items d
   \<and> orders (snd (edit_product is_valid request pid form d)) = orders d"
  by (simp add: edit_product_def Product_save_def split: option.splits)

text \<open>
  The vendor raises the price of product A from 10.00 to 15.00: the product row changes,
  the order item of the earlier order still says 10.00.
\<close>

theorem edit_product_keeps_order_items_witness:
  "map price (products (snd (edit_product (\<lambda>f. 0 < form_price f) (post_by vendor) 1
       \<lparr>form_name = ''Product A'', form_price = 1500, form_quantity_in_stock = 100\<rparr> shop)))
     = [1500, 500]
   \<and> map price (products shop) = [1000, 500]
   \<and> map price_at_purchase (order_items (snd (edit_product (\<lambda>f. 0 < form_price f) (post_by vendor) 1
       \<lparr>form_name = ''Product A'', form_price = 1500, form_quantity_in_stock = 100\<rparr> shop)))
     = [1000]"
  using edit_product_keeps_order_items [of "\<lambda>f. 0 < form_price f" "post_by vendor" 1
      "\<lparr>form_name = ''Product A'', form_price = 1500, form_quantity_in_stock = 100\<rparr>" shop]
  by (simp add: edit_product_def example_defs view_defs)

section \<open>Reviews\<close>






text \<open>
  Claim C9. A buyer who already has a review of an existing product and calls
  \<^verbatim>\<open>add_review\<close> for it again gets the duplicate rejection, whatever was posted, and the
  database is the same afterwards: no second review, the first one untouched.
\<close>

theorem add_review_duplicate_rejected:
  assumes "req_user request = Some u" and "is_buyer u"
    and "Product_get pid d = Some product"
    and "rv \<in> set (reviews d)" and "review_product rv = pid" and "review_buyer rv = user_id u"
  shows "add_review request pid r c d = (DuplicateReviewError, d)"
proof -
  have pid: "product_id product = pid"
    using assms(3) by (simp add: Product_get_SomeD)
  have "find (\<lambda>rv. review_product rv = pid \<and> review_buyer rv = user_id u) (reviews d) \<noteq> None"
    using assms(4-6) by (auto simp: find_None_iff)
  then show ?thesis
    using assms(1-3) pid by (auto simp: add_review_def)
qed

theorem add_review_duplicate_rejected_witness:
  "req_user (post_by alice) = Some alice \<and> is_buyer alice
   \<and> Product_get 1 (snd (add_review (post_by alice) 1 5 ''good'' shop)) = Some product_A
   \<and> reviews (snd (add_review (post_by alice) 1 5 ''good'' shop)) =
       [\<lparr>review_product = 1, review_buyer = 7, rating = 5, review_comment = ''good'',
         is_verified = True\<rparr>]
   \<and> add_review (post_by alice) 1 1 ''bad'' (snd (add_review (post_by alice) 1 5 ''good'' shop))
       = (DuplicateReviewError, snd (add_review (post_by alice) 1 5 ''good'' shop))"
  using add_review_duplicate_rejected [of "post_by alice" alice 1
      "snd (add_review (post_by alice) 1 5 ''good'' shop)" product_A
      "\<lparr>review_product = 1, review_buyer = 7, rating = 5, review_comment = ''good'',
        is_verified = True\<rparr>" 1 "''bad''"]
  by (simp add: add_review_def ReviewForm_is_valid_def has_purchased_def example_defs view_defs)

section \<open>Order pages\<close>

text \<open>
  Claim C10. For an authenticated user, \<^verbatim>\<open>order_detail\<close> and \<^verbatim>\<open>order_confirmation\<close>
  show an order only when it is a stored order with the requested identifier whose buyer is
  the user; when every order with that identifier belongs to someone else the answer is the
  404; and the answer depends on the user's own orders only, so it is the same whether or
  not another buyer's order exists and whatever that order holds.
\<close>

theorem order_pages_owner_only:
  assumes "req_user request = Some u"
  shows "(\<forall>t order. order_detail request oid d = Render t order
                     \<or> order_confirmation request oid d = Render t order
            \<longrightarrow> order \<in> set (orders d) \<and> order_id order = oid \<and> buyer order = user_id u)
       \<and> ((\<forall>order \<in> set (orders d). order_id order = oid \<longrightarrow> buyer order \<noteq> user_id u)
            \<longrightarrow> order_detail request oid d = Http404 \<and> order_confirmation request oid d = Http404)
       \<and> (\<forall>d'::db. filter (\<lambda>order. buyer order = user_id u) (orders d')
                     = filter (\<lambda>order. buyer order = user_id u) (orders d)
            \<longrightarrow> order_detail request oid d' = order_detail request oid d
              \<and> order_confirmation request oid d' = order_confirmation request oid d)"
proof (intro conjI allI impI)
  fix t order
  assume "order_detail request oid d = Render t order
          \<or> order_confirmation request oid d = Render t order"
  then have "get_order_or_404 oid (user_id u) d = Some order"
    using assms by (auto simp: order_detail_def order_confirmation_def split: option.splits)
  then show "order \<in> set (orders d)" "order_id order = oid" "buyer order = user_id u"
    by (auto simp: get_order_or_404_def dest: find_SomeD)
next
  assume "\<forall>order \<in> set (orders d). order_id order = oid \<longrightarrow> buyer order \<noteq> user_id u"
  then have "get_order_or_404 oid (user_id u) d = None"
    by (auto simp: get_order_or_404_def find_None_iff)
  then show "order_detail request oid d = Http404" "order_confirmation request oid d = Http404"
    using assms by (simp_all add: order_detail_def order_confirmation_def)
next
  fix d' :: db
  assume "filter (\<lambda>order. buyer order = user_id u) (orders d')
          = filter (\<lambda>order. buyer order = user_id u) (orders d)"
  then have "get_order_or_404 oid (user_id u) d' = get_order_or_404 oid (user_id u) d"
    by (simp add: get_order_or_404_def find_conj_filter)
  then show "order_detail request oid d' = order_detail request oid d"
    "order_confirmation request oid d' = order_confirmation request oid d"
    using assms by (simp_all add: order_detail_def order_confirmation_def)
qed

text \<open>
  Order 1 is alice's. Bob asking for it gets the 404 on both pages, exactly what he gets
  when the order is not there at all; alice gets her order.
\<close>

theorem order_pages_owner_only_witness:
  "req_user (post_by bob) = Some bob
   \<and> order_detail (post_by bob) 1 shop = Http404
   \<and> order_confirmation (post_by bob) 1 shop = Http404
   \<and> order_detail (post_by bob) 1 (shop\<lparr>orders := []\<rparr>) = order_detail (post_by bob) 1 shop
   \<and> order_confirmation (post_by bob) 1 (shop\<lparr>orders := []\<rparr>) = order_confirmation (post_by bob) 1 shop
   \<and> order_detail (post_by alice) 1 shop =
       Render ''ecommerce/buyer/order_detail.html''
         \<lparr>order_id = 1, buyer = 7, total_amount = 1000, shipping_address = ''1 High St'',
             status = Status ''delivered''\<rparr>"
  using order_pages_owner_only [of "post_by bob" bob 1 shop]
  by (simp add: order_detail_def order_confirmation_def get_order_or_404_def example_defs)

section \<open>Stock never goes below zero\<close>

lemma products_get_or_create_cart: "products (snd (get_or_create_cart request d)) = products d"
  by (simp add: get_or_create_cart_def Let_def split: option.splits)

lemma cart_items_get_or_create_cart: "cart_items (snd (get_or_create_cart request d)) = cart_items d"
  by (simp add: get_or_create_cart_def Let_def split: option.splits)

lemma products_add_to_cart: "products (snd (add_to_cart is_in_stock request b d)) = products d"
  using products_get_or_create_cart [of request d]
  by (auto simp: add_to_cart_def Let_def CartItem_save_def split: option.splits body.splits prod.splits)

lemma products_update_cart_item: "products (snd (update_cart_item request iid b d)) = products d"
  using products_get_or_create_cart [of request d]
  by (auto simp: update_cart_item_def Let_def CartItem_save_def CartItem_delete_def
      split: option.splits body.splits prod.splits)

lemma products_remove_from_cart: "products (snd (remove_from_cart request iid d)) = products d"
  using products_get_or_create_cart [of request d]
  by (auto simp: remove_from_cart_def CartItem_delete_def split: option.splits prod.splits)

lemma stock_nonneg_Product_save:
  "stock_nonneg d \<Longrightarrow> 0 \<le> quantity_in_stock p \<Longrightarrow> stock_nonneg (Product_save p d)"
  by (auto simp: stock_nonneg_def Product_save_def list_all_iff)

lemma stock_nonneg_create_order_items:
  "stock_nonneg d \<Longrightarrow> stock_nonneg (snd (create_order_items order lines d))"
proof (induction order lines d rule: create_order_items.induct)
  case (1 order d)
  then show ?case by simp
next
  case (2 order cart_item product rest d)
  show ?case
  proof (cases "quantity cart_item \<le> quantity_in_stock product")
    case True
    have "stock_nonneg (OrderItem_create order product (quantity cart_item) (price product) d)"
      using "2.prems" by (simp add: stock_nonneg_def OrderItem_create_def)
    then have "stock_nonneg (Product_save (product\<lparr>quantity_in_stock := quantity_in_stock product - quantity cart_item\<rparr>)
        (OrderItem_create order product (quantity cart_item) (price product) d))"
      using True by (intro stock_nonneg_Product_save) simp_all
    with "2.IH" True show ?thesis by simp
  next
    case False
    with "2.prems" show ?thesis by simp
  qed
qed

lemma stock_nonneg_checkout:
  assumes "stock_nonneg d"
  shows "stock_nonneg (snd (checkout request shipping d))"
proof -
  have loop: "stock_nonneg (snd (create_order_items order lines (snd (Order_create b t a d))))"
    for order lines b t a
  proof -
    have "stock_nonneg (snd (Order_create b t a d))"
      using assms by (simp add: stock_nonneg_def Order_create_def Let_def)
    then show ?thesis
      by (rule stock_nonneg_create_order_items)
  qed
  then have cleared: "stock_nonneg (Cart_delete cart (snd (create_order_items order lines (snd (Order_create b t a d)))))"
    for cart order lines b t a
    by (simp add: stock_nonneg_def Cart_delete_def)
  show ?thesis
    using assms loop cleared
    by (simp add: checkout_def Let_def case_prod_beta split: option.splits)
qed

lemma stock_nonneg_step: "stock_nonneg d \<Longrightarrow> stock_nonneg (step is_in_stock d operation)"
  by (cases operation)
    (simp_all add: stock_nonneg_checkout,
     simp_all add: stock_nonneg_def products_add_to_cart products_update_cart_item products_remove_from_cart)

lemma stock_nonneg_run: "stock_nonneg d \<Longrightarrow> stock_nonneg (run is_in_stock d ops)"
  unfolding run_def by (induction ops arbitrary: d) (simp_all add: stock_nonneg_step)

text \<open>
  Claim C4. Starting from a database in which no product has a negative stock, after every
  prefix of any sequence of add-to-cart, update, remove and checkout requests, served one
  after the other, no product has a negative stock.
\<close>

theorem stock_never_negative:
  assumes "stock_nonneg d"
  shows "\<forall>n. stock_nonneg (run is_in_stock d (take n ops))"
  using assms by (simp add: stock_nonneg_run)

text \<open>
  Alice puts two units of product A and one of product B in her cart, asks for three of B
  (refused), and checks out: the stocks end at 98 and 0.
\<close>

theorem stock_never_negative_witness:
  "stock_nonneg shop
   \<and> stock_nonneg (run (\<lambda>p. 0 < quantity_in_stock p) shop
        [AddToCart (post_by alice) (Body (Some 1) (Some 2)),
         AddToCart (post_by alice) (Body (Some 2) None),
         UpdateCartItem (post_by alice) 2 (Body None (Some 3)),
         Checkout (post_by alice) (Some ''123 Main St'')])
   \<and> map quantity_in_stock (products (run (\<lambda>p. 0 < quantity_in_stock p) shop
        [AddToCart (post_by alice) (Body (Some 1) (Some 2)),
         AddToCart (post_by alice) (Body (Some 2) None),
         UpdateCartItem (post_by alice) 2 (Body None (Some 3)),
         Checkout (post_by alice) (Some ''123 Main St'')])) = [98, 0]"
  using stock_never_negative [of shop "\<lambda>p. 0 < quantity_in_stock p"
      "[AddToCart (post_by alice) (Body (Some 1) (Some 2)),
        AddToCart (post_by alice) (Body (Some 2) None),
        UpdateCartItem (post_by alice) 2 (Body None (Some 3)),
        Checkout (post_by alice) (Some ''123 Main St'')]"]
  by (simp add: run_def stock_nonneg_def add_to_cart_def update_cart_item_def checkout_def
      example_defs view_defs)

section \<open>A checkout that succeeds\<close>

lemma fold_max_ge: "(a::nat) \<le> fold max ks a \<and> (\<forall>k \<in> set ks. k \<le> fold max ks a)"
proof (induction ks arbitrary: a)
  case Nil
  show ?case by simp
next
  case (Cons k ks)
  from Cons [of "max k a"] show ?case by auto
qed

lemma next_pk_fresh: "next_pk ks \<notin> set ks"
  using fold_max_ge [of 0 ks] by (auto simp: next_pk_def)

lemma Product_get_save_same: "Product_get (product_id p) (Product_save p d) = Some p"
proof -
  have "find (\<lambda>r. product_id r = k) (map (\<lambda>r. if product_id r = k then p else r) xs) = Some p"
    if "list_ex (\<lambda>r. product_id r = k) xs" "product_id p = k" for xs k
    using that by (induction xs) auto
  moreover have "find (\<lambda>r. product_id r = k) (xs @ [p]) = Some p"
    if "\<not> list_ex (\<lambda>r. product_id r = k) xs" "product_id p = k" for xs k
    using that by (induction xs) auto
  ultimately show ?thesis
    by (simp add: Product_get_def Product_save_def)
qed

lemma Product_get_save_other:
  assumes "pid \<noteq> product_id p"
  shows "Product_get pid (Product_save p d) = Product_get pid d"
proof -
  have "find (\<lambda>r. product_id r = pid) (map (\<lambda>r. if product_id r = product_id p then p else r) xs)
        = find (\<lambda>r. product_id r = pid) xs" for xs
    using assms by (induction xs) auto
  moreover have "find (\<lambda>r. product_id r = pid) (xs @ [p]) = find (\<lambda>r. product_id r = pid) xs" for xs
    using assms by (induction xs) auto
  ultimately show ?thesis
    by (simp add: Product_get_def Product_save_def)
qed

lemma Product_get_OrderItem_create:
  "Product_get pid (OrderItem_create order product q pr d) = Product_get pid d"
  by (simp add: Product_get_def OrderItem_create_def)

lemma create_order_items_enough_stock:
  assumes "\<forall>l \<in> set lines. quantity (fst l) \<le> quantity_in_stock (snd l)"
  shows "fst (create_order_items order lines d) = None
       \<and> order_items (snd (create_order_items order lines d)) = order_items d @ map (order_item_of order) lines
       \<and> orders (snd (create_order_items order lines d)) = orders d
       \<and> carts (snd (create_order_items order lines d)) = carts d
       \<and> cart_items (snd (create_order_items order lines d)) = cart_items d
       \<and> reviews (snd (create_order_items order lines d)) = reviews d"
  using assms
proof (induction order lines d rule: create_order_items.induct)
  case (1 order d)
  show ?case by simp
next
  case (2 order cart_item product rest d)
  then show ?case
    by (simp add: Product_save_def OrderItem_create_def order_item_of_def)
qed

lemma create_order_items_stock:
  assumes "\<forall>l \<in> set lines. quantity (fst l) \<le> quantity_in_stock (snd l)"
    and "distinct (map (\<lambda>l. product_id (snd l)) lines)"
  shows "Product_get pid (snd (create_order_items order lines d)) =
           (case find (\<lambda>l. product_id (snd l) = pid) lines of
              None \<Rightarrow> Product_get pid d
            | Some l \<Rightarrow> Some ((snd l)\<lparr>quantity_in_stock := quantity_in_stock (snd l) - quantity (fst l)\<rparr>))"
  using assms
proof (induction order lines d rule: create_order_items.induct)
  case (1 order d)
  show ?case by simp
next
  case (2 order cart_item product rest d)
  let ?p = "product\<lparr>quantity_in_stock := quantity_in_stock product - quantity cart_item\<rparr>"
  let ?d = "Product_save ?p (OrderItem_create order product (quantity cart_item) (price product) d)"
  have enough: "quantity cart_item \<le> quantity_in_stock product"
    using "2.prems" by simp
  have IH: "Product_get pid (snd (create_order_items order rest ?d)) =
           (case find (\<lambda>l. product_id (snd l) = pid) rest of
              None \<Rightarrow> Product_get pid ?d
            | Some l \<Rightarrow> Some ((snd l)\<lparr>quantity_in_stock := quantity_in_stock (snd l) - quantity (fst l)\<rparr>))"
    using "2.IH" "2.prems" enough by simp
  show ?case
  proof (cases "product_id product = pid")
    case True
    then have "find (\<lambda>l. product_id (snd l) = pid) rest = None"
      using "2.prems"(2) by (fastforce simp: find_None_iff image_iff)
    moreover have "Product_get pid ?d = Some ?p"
      using True Product_get_save_same [of ?p] by auto
    ultimately show ?thesis
      using IH enough True by simp
  next
    case False
    then have "Product_get pid ?d = Product_get pid d"
      by (simp add: Product_get_save_other Product_get_OrderItem_create)
    then show ?thesis
      using IH enough False by (simp split: option.split)
  qed
qed

lemma checkout_post:
  assumes "req_user request = Some u" and "is_buyer u" and "http_method request = POST"
    and "session_cart request d = Some cart"
    and "select_related (Cart_items cart d) d \<noteq> []"
    and "addr \<noteq> []"
  shows "checkout request (Some addr) d =
           (let lines = select_related (Cart_items cart d) d;
                od = Order_create (user_id u) (get_total_price cart d) addr d;
                r = create_order_items (fst od) lines (snd od)
            in case fst r of
                 Some name \<Rightarrow> (InsufficientStockError name, snd r)
               | None \<Rightarrow> (OrderPlaced (order_id (fst od)), Cart_delete cart (snd r)))"
  using assms by (simp add: checkout_def Let_def case_prod_beta split: option.splits)

text \<open>
  Claim C2. An authenticated buyer posts a non-empty shipping address; the session's cart
  has lines, each joined with the current row of its product, one line per product, every
  product active, every quantity at most the product's stock. Then \<^verbatim>\<open>checkout\<close> answers
  with the new order's identifier, which no earlier order has; exactly one order is added,
  with the buyer, the address and as total the sum over the lines of current price times
  quantity; one order item per line is added, in the lines' order, with the line's product
  and quantity and the product's current price; each such product is stored with its stock
  reduced by the line's quantity and every other product is as before; the cart and all its
  lines are deleted.
\<close>

theorem checkout_places_order:
  assumes "req_user request = Some u" and "is_buyer u" and "http_method request = POST"
    and "session_cart request d = Some cart"
    and "lines = select_related (Cart_items cart d) d"
    and "lines \<noteq> []"
    and "map fst lines = Cart_items cart d"
    and "distinct (map item_product (Cart_items cart d))"
    and "\<forall>l \<in> set lines. is_active (snd l)"
    and "\<forall>l \<in> set lines. quantity (fst l) \<le> quantity_in_stock (snd l)"
    and "addr \<noteq> []"
    and "d' = snd (checkout request (Some addr) d)"
    and "order = \<lparr>order_id = fresh_order_id d, buyer = user_id u,
                  total_amount = (\<Sum>l\<leftarrow>lines. price (snd l) * quantity (fst l)),
                  shipping_address = addr, status = DefaultStatus\<rparr>"
  shows "fst (checkout request (Some addr) d) = OrderPlaced (order_id order)
       \<and> order_id order \<notin> order_id ` set (orders d)
       \<and> orders d' = orders d @ [order]
       \<and> order_items d' = order_items d @
            map (\<lambda>l. \<lparr>oi_order = order_id order, oi_product = item_product (fst l),
                       oi_quantity = quantity (fst l), price_at_purchase = price (snd l)\<rparr>) lines
       \<and> (\<forall>l \<in> set lines. Product_get (item_product (fst l)) d' =
              Some ((snd l)\<lparr>quantity_in_stock := quantity_in_stock (snd l) - quantity (fst l)\<rparr>))
       \<and> (\<forall>pid. pid \<notin> item_product ` set (Cart_items cart d) \<longrightarrow> Product_get pid d' = Product_get pid d)
       \<and> carts d' = filter (\<lambda>c. cart_id c \<noteq> cart_id cart) (carts d)
       \<and> cart_items d' = filter (\<lambda>i. item_cart i \<noteq> cart_id cart) (cart_items d)
       \<and> reviews d' = reviews d"
proof -
  have joined: "Product_get (item_product (fst l)) d = Some (snd l)" if "l \<in> set lines" for l
    using that assms(5) by (auto simp: select_related_def List.map_filter_def)
  have pid: "product_id (snd l) = item_product (fst l)" if "l \<in> set lines" for l
    using joined [OF that] by (auto simp: Product_get_def dest: find_SomeD)
  have ids: "map (\<lambda>l. product_id (snd l)) lines = map item_product (Cart_items cart d)"
    using pid assms(7) [symmetric] by (simp add: comp_def cong: map_cong)
  have dist: "distinct (map (\<lambda>l. product_id (snd l)) lines)"
    using ids assms(8) by simp
  define od where "od = Order_create (user_id u) (get_total_price cart d) addr d"
  define r where "r = create_order_items (fst od) lines (snd od)"
  have "CartItem_get_total_price = (\<lambda>l. price (snd l) * quantity (fst l))"
    by (rule ext) (simp add: CartItem_get_total_price_def)
  then have total: "get_total_price cart d = (\<Sum>l\<leftarrow>lines. price (snd l) * quantity (fst l))"
    using assms(5,9) by (simp add: get_total_price_def)
  have od: "fst od = order" "snd od = d\<lparr>orders := orders d @ [order]\<rparr>"
    by (simp_all add: od_def Order_create_def Let_def total assms(13))
  have loop: "fst r = None"
    "order_items (snd r) = order_items (snd od) @ map (order_item_of (fst od)) lines"
    "orders (snd r) = orders (snd od)" "carts (snd r) = carts (snd od)"
    "cart_items (snd r) = cart_items (snd od)" "reviews (snd r) = reviews (snd od)"
    using create_order_items_enough_stock [OF assms(10), of "fst od" "snd od"] by (simp_all add: r_def)
  have co: "checkout request (Some addr) d = (OrderPlaced (order_id order), Cart_delete cart (snd r))"
    using checkout_post [OF assms(1-4) _ assms(11)] assms(5,6) loop(1) od(1)
    by (simp add: Let_def od_def r_def)
  then have d': "d' = Cart_delete cart (snd r)"
    by (simp add: assms(12))
  have stock: "Product_get k d' =
           (case find (\<lambda>l. product_id (snd l) = k) lines of
              None \<Rightarrow> Product_get k d
            | Some l \<Rightarrow> Some ((snd l)\<lparr>quantity_in_stock := quantity_in_stock (snd l) - quantity (fst l)\<rparr>))" for k
  proof -
    have "Product_get k d' = Product_get k (snd r)"
      by (simp add: d' Product_get_def Cart_delete_def)
    moreover have "Product_get k (snd od) = Product_get k d"
      by (simp add: od Product_get_def)
    ultimately show ?thesis
      using create_order_items_stock [OF assms(10) dist, of k "fst od" "snd od"]
      by (simp add: r_def split: option.split)
  qed
  have "fst (checkout request (Some addr) d) = OrderPlaced (order_id order)"
    by (simp add: co)
  moreover have "order_id order \<notin> order_id ` set (orders d)"
    using next_pk_fresh [of "map order_id (orders d)"] by (simp add: assms(13) fresh_order_id_def)
  moreover have "orders d' = orders d @ [order]"
    by (simp add: d' Cart_delete_def loop od)
  moreover have "order_items d' = order_items d @
            map (\<lambda>l. \<lparr>oi_order = order_id order, oi_product = item_product (fst l),
                       oi_quantity = quantity (fst l), price_at_purchase = price (snd l)\<rparr>) lines"
    using pid by (simp add: d' Cart_delete_def loop od order_item_of_def cong: map_cong)
  moreover have "\<forall>l \<in> set lines. Product_get (item_product (fst l)) d' =
              Some ((snd l)\<lparr>quantity_in_stock := quantity_in_stock (snd l) - quantity (fst l)\<rparr>)"
  proof
    fix l assume l: "l \<in> set lines"
    have "find (\<lambda>m. product_id (snd m) = product_id (snd l)) lines = Some l"
      using l dist
    proof (induction lines)
      case Nil
      then show ?case by simp
    next
      case (Cons m ms)
      then show ?case by (auto simp: image_iff)
    qed
    then show "Product_get (item_product (fst l)) d' =
              Some ((snd l)\<lparr>quantity_in_stock := quantity_in_stock (snd l) - quantity (fst l)\<rparr>)"
      using stock [of "product_id (snd l)"] pid [OF l] by simp
  qed
  moreover have "\<forall>pid. pid \<notin> item_product ` set (Cart_items cart d) \<longrightarrow> Product_get pid d' = Product_get pid d"
  proof (intro allI impI)
    fix k assume "k \<notin> item_product ` set (Cart_items cart d)"
    then have "k \<notin> set (map (\<lambda>l. product_id (snd l)) lines)"
      by (simp add: ids)
    then have "find (\<lambda>l. product_id (snd l) = k) lines = None"
      by (fastforce simp: find_None_iff image_iff)
    then show "Product_get k d' = Product_get k d"
      using stock [of k] by simp
  qed
  moreover have "carts d' = filter (\<lambda>c. cart_id c \<noteq> cart_id cart) (carts d)"
    "cart_items d' = filter (\<lambda>i. item_cart i \<noteq> cart_id cart) (cart_items d)"
    "reviews d' = reviews d"
    by (simp_all add: d' Cart_delete_def loop od)
  ultimately show ?thesis by blast
qed


text \<open>
  The scenario of the spec: product A at 10.00 with 100 in stock, two units in the cart,
  shipped to "123 Main St".
\<close>

theorem checkout_places_order_witness:
  "req_user (post_by alice) = Some alice \<and> is_buyer alice \<and> http_method (post_by alice) = POST
   \<and> session_cart (post_by alice) (shop\<lparr>cart_items := [line_A]\<rparr>)
        = Some \<lparr>cart_id = 1, session_key = ''s1''\<rparr>
   \<and> select_related (Cart_items \<lparr>cart_id = 1, session_key = ''s1''\<rparr> (shop\<lparr>cart_items := [line_A]\<rparr>))
        (shop\<lparr>cart_items := [line_A]\<rparr>) = [(line_A, product_A)]
   \<and> Cart_items \<lparr>cart_id = 1, session_key = ''s1''\<rparr> (shop\<lparr>cart_items := [line_A]\<rparr>) = [line_A]
   \<and> is_active product_A \<and> quantity line_A \<le> quantity_in_stock product_A
   \<and> checkout (post_by alice) (Some ''123 Main St'') (shop\<lparr>cart_items := [line_A]\<rparr>) =
       (OrderPlaced 2,
        \<lparr>products = [product_A\<lparr>quantity_in_stock := 98\<rparr>, product_B],
          carts = [],
          cart_items = [],
          orders = [\<lparr>order_id = 1, buyer = 7, total_amount = 1000, shipping_address = ''1 High St'',
             status = Status ''delivered''\<rparr>,
                    \<lparr>order_id = 2, buyer = 7, total_amount = 2000, shipping_address = ''123 Main St'',
             status = DefaultStatus\<rparr>],
          order_items = [\<lparr>oi_order = 1, oi_product = 1, oi_quantity = 1, price_at_purchase = 1000\<rparr>,
                         \<lparr>oi_order = 2, oi_product = 1, oi_quantity = 2, price_at_purchase = 1000\<rparr>],
          reviews = []\<rparr>)"
  using checkout_places_order [where request = "post_by alice" and u = alice
      and d = "shop\<lparr>cart_items := [line_A]\<rparr>" and cart = "\<lparr>cart_id = 1, session_key = ''s1''\<rparr>"
      and lines = "[(line_A, product_A)]" and addr = "''123 Main St''"
      and d' = "snd (checkout (post_by alice) (Some ''123 Main St'') (shop\<lparr>cart_items := [line_A]\<rparr>))"
      and order = "\<lparr>order_id = fresh_order_id (shop\<lparr>cart_items := [line_A]\<rparr>), buyer = user_id alice,
                     total_amount = (\<Sum>l\<leftarrow>[(line_A, product_A)]. price (snd l) * quantity (fst l)),
                     shipping_address = ''123 Main St'',
             status = DefaultStatus\<rparr>"]
  by (simp add: checkout_def example_defs view_defs)

section \<open>One line per product\<close>

text \<open>
  The checkout theorem above asks for a cart with one line per product. The four views keep
  it so: line identifiers stay unique and no cart gets a second line for a product.
\<close>

lemma cart_items_create_order_items:
  "cart_items (snd (create_order_items order lines d)) = cart_items d"
  by (induction order lines d rule: create_order_items.induct)
    (simp_all add: Product_save_def OrderItem_create_def)

lemma cart_items_checkout:
  "cart_items (snd (checkout request shipping d)) = cart_items d
   \<or> (\<exists>cart::Cart. cart_items (snd (checkout request shipping d)) =
         filter (\<lambda>i. item_cart i \<noteq> cart_id cart) (cart_items d))"
proof -
  have "cart_items (snd (create_order_items order lines (snd (Order_create b t a d)))) = cart_items d"
    for order lines b t a
    by (simp add: cart_items_create_order_items Order_create_def Let_def)
  then show ?thesis
    by (auto simp: checkout_def Let_def case_prod_beta Cart_delete_def split: option.splits)
qed

lemma lines_unique_filter:
  assumes "lines_unique d" and "cart_items d' = filter P (cart_items d)"
  shows "lines_unique d'"
  using assms by (simp add: lines_unique_def distinct_map_filter)

lemma lines_unique_save:
  assumes "lines_unique d" and "old \<in> set (cart_items d)"
    and "cart_items d' = map (\<lambda>r. if item_id r = item_id old then old\<lparr>quantity := q\<rparr> else r) (cart_items d)"
  shows "lines_unique d'"
proof -
  have inj: "inj_on item_id (set (cart_items d))"
    using assms(1) by (simp add: lines_unique_def distinct_map)
  have same: "r = old" if "r \<in> set (cart_items d)" "item_id r = item_id old" for r
    using inj that assms(2) by (auto dest: inj_onD)
  have "map item_id (cart_items d') = map item_id (cart_items d)"
    by (simp add: assms(3) comp_def cong: if_cong)
  moreover have "map (\<lambda>i. (item_cart i, item_product i)) (cart_items d')
                 = map (\<lambda>i. (item_cart i, item_product i)) (cart_items d)"
    using same by (auto simp: assms(3))
  ultimately show ?thesis
    using assms(1) by (simp add: lines_unique_def)
qed

lemma lines_unique_add_to_cart:
  assumes "lines_unique d"
  shows "lines_unique (snd (add_to_cart is_in_stock request b d))"
proof -
  define cart where "cart = fst (get_or_create_cart request d)"
  define d1 where "d1 = snd (get_or_create_cart request d)"
  have items: "cart_items d1 = cart_items d"
    by (simp add: d1_def cart_items_get_or_create_cart)
  have d1: "lines_unique d1"
    using assms items by (simp add: lines_unique_def)
  have new: "lines_unique (d1\<lparr>cart_items := cart_items d1 @
        [\<lparr>item_id = next_pk (map item_id (cart_items d1)), item_cart = cart_id cart,
          item_product = pid, quantity = q\<rparr>]\<rparr>)"
    if "CartItem_find (cart_id cart) pid d1 = None" for pid q
  proof -
    have "(cart_id cart, pid) \<notin> set (map (\<lambda>i. (item_cart i, item_product i)) (cart_items d1))"
      using that by (auto simp: CartItem_find_def find_None_iff)
    then show ?thesis
      using d1 next_pk_fresh [of "map item_id (cart_items d1)"] by (simp add: lines_unique_def)
  qed
  have saved: "lines_unique (CartItem_save (old\<lparr>quantity := q\<rparr>) d1)"
    if "CartItem_find (cart_id cart) pid d1 = Some old" for pid old q
  proof -
    have mem: "old \<in> set (cart_items d1)"
      using that by (auto simp: CartItem_find_def dest: find_SomeD)
    show ?thesis
      by (rule lines_unique_save [where q = q, OF d1 mem]) (simp add: CartItem_save_def)
  qed
  show ?thesis
    using assms d1 new saved
    by (simp add: add_to_cart_def Let_def case_prod_beta cart_def [symmetric] d1_def [symmetric]
        split: option.splits body.splits)
qed

lemma lines_unique_update_cart_item:
  assumes "lines_unique d"
  shows "lines_unique (snd (update_cart_item request iid b d))"
proof -
  define cart where "cart = fst (get_or_create_cart request d)"
  define d1 where "d1 = snd (get_or_create_cart request d)"
  have items: "cart_items d1 = cart_items d"
    by (simp add: d1_def cart_items_get_or_create_cart)
  have d1: "lines_unique d1"
    using assms items by (simp add: lines_unique_def)
  have deleted: "lines_unique (CartItem_delete line d1)" for line
    using d1 by (rule lines_unique_filter) (simp add: CartItem_delete_def)
  have saved: "lines_unique (CartItem_save (line\<lparr>quantity := q\<rparr>) d1)"
    if "find (\<lambda>i. item_id i = iid \<and> item_cart i = cart_id cart) (cart_items d1) = Some line" for line q
  proof -
    have mem: "line \<in> set (cart_items d1)"
      using that by (auto dest: find_SomeD)
    show ?thesis
      by (rule lines_unique_save [where q = q, OF d1 mem]) (simp add: CartItem_save_def)
  qed
  show ?thesis
    using assms d1 deleted saved
    by (auto simp: update_cart_item_def Let_def case_prod_beta cart_def [symmetric] d1_def [symmetric]
        split: option.splits body.splits)
qed

lemma lines_unique_remove_from_cart:
  assumes "lines_unique d"
  shows "lines_unique (snd (remove_from_cart request iid d))"
proof -
  define d1 where "d1 = snd (get_or_create_cart request d)"
  have d1: "lines_unique d1"
    using assms by (simp add: lines_unique_def d1_def cart_items_get_or_create_cart)
  then have "lines_unique (CartItem_delete line d1)" for line
    by (rule lines_unique_filter) (simp add: CartItem_delete_def)
  then show ?thesis
    using assms d1
    by (auto simp: remove_from_cart_def case_prod_beta d1_def [symmetric] split: option.splits)
qed

lemma lines_unique_checkout:
  assumes "lines_unique d"
  shows "lines_unique (snd (checkout request shipping d))"
  using cart_items_checkout [of request shipping d]
proof (elim disjE exE)
  assume "cart_items (snd (checkout request shipping d)) = cart_items d"
  with assms show ?thesis by (simp add: lines_unique_def)
next
  fix cart :: Cart
  assume "cart_items (snd (checkout request shipping d)) =
          filter (\<lambda>i. item_cart i \<noteq> cart_id cart) (cart_items d)"
  with assms show ?thesis by (rule lines_unique_filter)
qed

lemma lines_unique_run: "lines_unique d \<Longrightarrow> lines_unique (run is_in_stock d ops)"
  unfolding run_def
proof (induction ops arbitrary: d)
  case Nil
  then show ?case by simp
next
  case (Cons operation ops)
  have "lines_unique (step is_in_stock d operation)"
    using Cons.prems
    by (cases operation)
      (simp_all add: lines_unique_add_to_cart lines_unique_update_cart_item
        lines_unique_remove_from_cart lines_unique_checkout)
  then show ?case
    using Cons.IH by simp
qed

lemma lines_unique_one_line_per_product:
  assumes "lines_unique d"
  shows "distinct (map item_product (Cart_items cart d))"
proof -
  have "distinct (map (\<lambda>i. (item_cart i, item_product i)) (Cart_items cart d))"
    using assms by (simp add: lines_unique_def Cart_items_def distinct_map_filter)
  moreover have "map (\<lambda>i. (item_cart i, item_product i)) (Cart_items cart d)
                 = map (Pair (cart_id cart)) (map item_product (Cart_items cart d))"
    by (simp add: Cart_items_def)
  ultimately have "distinct (map (Pair (cart_id cart)) (map item_product (Cart_items cart d)))"
    by simp
  then show ?thesis
    by (auto simp: distinct_map inj_on_def)
qed

section \<open>Cart quantities and stock\<close>

lemma find_map_replace:
  assumes "find P xs = Some old" and "P new"
  shows "find P (map (\<lambda>r. if item_id r = item_id old then new else r) xs) = Some new"
  using assms by (induction xs) (auto split: if_splits)

lemma find_append_new:
  assumes "find P xs = None" and "P new"
  shows "find P (xs @ [new]) = Some new"
  using assms by (induction xs) (auto split: if_splits)

lemma add_to_cart_refused:
  assumes "req_user request = Some u" and "is_buyer u" and "http_method request = POST"
    and "find (\<lambda>p. product_id p = pid \<and> is_active p) (products d) = Some product"
    and "\<not> is_in_stock product \<or> quantity_in_stock product < q"
  shows "add_to_cart is_in_stock request (Body (Some pid) (Some q)) d = (AddInsufficientStock, d)"
  using assms by (auto simp: add_to_cart_def)

text \<open>
  A request within the stock: \<open>w\<close> is the quantity the view is about to write, the
  requested one for a new line, the capped sum for a line that exists.
\<close>

lemma add_to_cart_accepted:
  assumes "req_user request = Some u" and "is_buyer u" and "http_method request = POST"
    and "find (\<lambda>p. product_id p = pid \<and> is_active p) (products d) = Some product"
    and "is_in_stock product" and "q \<le> quantity_in_stock product"
    and "cart = fst (get_or_create_cart request d)"
    and "w = (case CartItem_find (cart_id cart) pid d of
                None \<Rightarrow> q
              | Some old \<Rightarrow> min (quantity old + q) (quantity_in_stock product))"
  shows "(0 < w \<longrightarrow>
            cart_items (snd (add_to_cart is_in_stock request (Body (Some pid) (Some q)) d)) =
              (case CartItem_find (cart_id cart) pid d of
                 None \<Rightarrow> cart_items d @
                   [\<lparr>item_id = next_pk (map item_id (cart_items d)), item_cart = cart_id cart,
                     item_product = pid, quantity = w\<rparr>]
               | Some old \<Rightarrow>
                   map (\<lambda>r. if item_id r = item_id old then old\<lparr>quantity := w\<rparr> else r)
                     (cart_items d))
            \<and> (\<exists>line. CartItem_find (cart_id cart) pid
                          (snd (add_to_cart is_in_stock request (Body (Some pid) (Some q)) d)) = Some line
                     \<and> quantity line = w \<and> quantity line \<le> quantity_in_stock product))
       \<and> (w \<le> 0 \<longrightarrow>
            fst (add_to_cart is_in_stock request (Body (Some pid) (Some q)) d) = AddException
            \<and> cart_items (snd (add_to_cart is_in_stock request (Body (Some pid) (Some q)) d)) =
                cart_items d)"
proof -
  define d1 where "d1 = snd (get_or_create_cart request d)"
  define r where "r = add_to_cart is_in_stock request (Body (Some pid) (Some q)) d"
  have pid: "product_id product = pid"
    using assms(4) by (auto dest: find_SomeD)
  have items: "cart_items d1 = cart_items d"
    by (simp add: d1_def cart_items_get_or_create_cart)
  then have same: "CartItem_find (cart_id cart) pid d1 = CartItem_find (cart_id cart) pid d"
    by (simp add: CartItem_find_def)
  have bound: "w \<le> quantity_in_stock product"
    using assms(6) by (simp add: assms(8) split: option.splits)
  show ?thesis
  proof (cases "CartItem_find (cart_id cart) pid d")
    case None
    then have w: "w = q"
      by (simp add: assms(8))
    let ?new = "\<lparr>item_id = next_pk (map item_id (cart_items d)), item_cart = cart_id cart,
                  item_product = pid, quantity = w\<rparr>"
    have run: "r = (if 0 < w
                    then (ProductAdded (get_total_items cart (d1\<lparr>cart_items := cart_items d @ [?new]\<rparr>)),
                          d1\<lparr>cart_items := cart_items d @ [?new]\<rparr>)
                    else (AddException, d1))"
      using assms(1-6) None pid items same w
      by (simp add: assms(7) r_def d1_def add_to_cart_def Let_def case_prod_beta
          CartItem_quantity_valid_def)
    have "CartItem_find (cart_id cart) pid (d1\<lparr>cart_items := cart_items d @ [?new]\<rparr>) = Some ?new"
      using None by (simp add: CartItem_find_def find_append_new)
    then show ?thesis
      using None run items bound by (auto simp: r_def [symmetric])
  next
    case (Some old)
    then have w: "w = min (quantity old + q) (quantity_in_stock product)"
      by (simp add: assms(8))
    let ?new = "old\<lparr>quantity := w\<rparr>"
    let ?d2 = "d1\<lparr>cart_items := map (\<lambda>r. if item_id r = item_id old then ?new else r) (cart_items d)\<rparr>"
    have cap: "(if quantity_in_stock product < quantity old + q
                then quantity_in_stock product else quantity old + q) = w"
      by (simp add: w min_def)
    have run: "r = (if 0 < w then (ProductAdded (get_total_items cart ?d2), ?d2)
                    else (AddException, d1))"
      using assms(1-6) Some pid items same
      by (simp add: assms(7) r_def d1_def add_to_cart_def Let_def case_prod_beta CartItem_save_def
          CartItem_quantity_valid_def cap)
    have old: "item_cart old = cart_id cart \<and> item_product old = pid"
      using Some by (auto simp: CartItem_find_def dest: find_SomeD)
    have "CartItem_find (cart_id cart) pid ?d2 = Some ?new"
      using Some old by (simp add: CartItem_find_def find_map_replace)
    then show ?thesis
      using Some run items bound by (auto simp: r_def [symmetric])
  qed
qed

lemma update_cart_item_cases:
  assumes "req_user request = Some u" and "is_buyer u" and "http_method request = POST"
    and "cart = fst (get_or_create_cart request d)"
    and "find (\<lambda>i. item_id i = iid \<and> item_cart i = cart_id cart) (cart_items d) = Some line"
    and "Product_get (item_product line) d = Some product"
  shows "(q \<le> 0 \<longrightarrow>
            fst (update_cart_item request iid (Body x (Some q)) d) = ItemRemoved
            \<and> cart_items (snd (update_cart_item request iid (Body x (Some q)) d)) =
                filter (\<lambda>i. item_id i \<noteq> iid) (cart_items d))
       \<and> (0 < q \<and> quantity_in_stock product < q \<longrightarrow>
            fst (update_cart_item request iid (Body x (Some q)) d) =
                OnlyAvailable (quantity_in_stock product)
            \<and> cart_items (snd (update_cart_item request iid (Body x (Some q)) d)) = cart_items d)
       \<and> (0 < q \<and> q \<le> quantity_in_stock product \<longrightarrow>
            cart_items (snd (update_cart_item request iid (Body x (Some q)) d)) =
              map (\<lambda>i. if item_id i = iid then line\<lparr>quantity := q\<rparr> else i) (cart_items d))"
proof -
  define d1 where "d1 = snd (get_or_create_cart request d)"
  have items: "cart_items d1 = cart_items d"
    by (simp add: d1_def cart_items_get_or_create_cart)
  have prods: "Product_get (item_product line) d1 = Some product"
    using assms(6) products_get_or_create_cart [of request d] by (simp add: d1_def Product_get_def)
  have iid: "item_id line = iid"
    using assms(5) by (auto dest: find_SomeD)
  show ?thesis
    using assms(1-3) assms(5) items prods iid
    by (simp add: assms(4) update_cart_item_def Let_def case_prod_beta d1_def [symmetric]
        CartItem_delete_def CartItem_save_def CartItem_quantity_valid_def)
qed


text \<open>
  Claim C7, as the views have it. For an authenticated buyer's POST: \<^verbatim>\<open>add_to_cart\<close>
  refuses with "Insufficient stock" and changes nothing when the product is not in stock or
  has fewer units than requested. Otherwise the quantity it is about to write is the
  requested one when the cart has no line for the product, and the existing line's quantity
  plus the requested one, capped at the stock, when it has. When that quantity is positive
  the line is created or saved with it, and the cart's line for the product then holds that
  quantity, which is at most the stock; when it is zero or less the write is refused, the
  view answers with the failure and no line changes. \<^verbatim>\<open>update_cart_item\<close> deletes the
  line when the new quantity is zero or less, refuses with "Only n items available" and
  leaves every line as it is when the new quantity exceeds the stock, and otherwise saves
  the new quantity, which is positive and at most the stock.
\<close>

theorem cart_lines_within_stock:
  assumes "req_user request = Some u" and "is_buyer u" and "http_method request = POST"
    and "cart = fst (get_or_create_cart request d)"
  shows "(\<forall>pid q product w.
            find (\<lambda>p. product_id p = pid \<and> is_active p) (products d) = Some product
            \<and> w = (case CartItem_find (cart_id cart) pid d of
                      None \<Rightarrow> q
                    | Some old \<Rightarrow> min (quantity old + q) (quantity_in_stock product)) \<longrightarrow>
              (\<not> is_in_stock product \<or> quantity_in_stock product < q \<longrightarrow>
                 add_to_cart is_in_stock request (Body (Some pid) (Some q)) d = (AddInsufficientStock, d))
            \<and> (is_in_stock product \<and> q \<le> quantity_in_stock product \<longrightarrow>
                 (0 < w \<longrightarrow>
                    cart_items (snd (add_to_cart is_in_stock request (Body (Some pid) (Some q)) d)) =
                      (case CartItem_find (cart_id cart) pid d of
                         None \<Rightarrow> cart_items d @
                           [\<lparr>item_id = next_pk (map item_id (cart_items d)), item_cart = cart_id cart,
                             item_product = pid, quantity = w\<rparr>]
                       | Some old \<Rightarrow>
                           map (\<lambda>r. if item_id r = item_id old then old\<lparr>quantity := w\<rparr> else r)
                             (cart_items d))
                    \<and> (\<exists>line. CartItem_find (cart_id cart) pid
                                  (snd (add_to_cart is_in_stock request (Body (Some pid) (Some q)) d))
                                = Some line
                             \<and> quantity line = w \<and> quantity line \<le> quantity_in_stock product))
               \<and> (w \<le> 0 \<longrightarrow>
                    fst (add_to_cart is_in_stock request (Body (Some pid) (Some q)) d) = AddException
                    \<and> cart_items (snd (add_to_cart is_in_stock request (Body (Some pid) (Some q)) d)) =
                        cart_items d)))
       \<and> (\<forall>iid q x line product.
            find (\<lambda>i. item_id i = iid \<and> item_cart i = cart_id cart) (cart_items d) = Some line
            \<and> Product_get (item_product line) d = Some product \<longrightarrow>
              (q \<le> 0 \<longrightarrow>
                 fst (update_cart_item request iid (Body x (Some q)) d) = ItemRemoved
                 \<and> cart_items (snd (update_cart_item request iid (Body x (Some q)) d)) =
                     filter (\<lambda>i. item_id i \<noteq> iid) (cart_items d))
            \<and> (0 < q \<and> quantity_in_stock product < q \<longrightarrow>
                 fst (update_cart_item request iid (Body x (Some q)) d) =
                     OnlyAvailable (quantity_in_stock product)
                 \<and> cart_items (snd (update_cart_item request iid (Body x (Some q)) d)) = cart_items d)
            \<and> (0 < q \<and> q \<le> quantity_in_stock product \<longrightarrow>
                 cart_items (snd (update_cart_item request iid (Body x (Some q)) d)) =
                   map (\<lambda>i. if item_id i = iid then line\<lparr>quantity := q\<rparr> else i) (cart_items d)))"
  apply (intro conjI allI impI)
  subgoal for pid q product w
    by (simp add: add_to_cart_refused [OF assms(1-3)])
  subgoal for pid q product w
    using add_to_cart_accepted [where is_in_stock = is_in_stock and product = product and q = q
        and pid = pid and w = w, OF assms(1-3) _ _ _ assms(4)]
    by simp
  subgoal for pid q product w
    using add_to_cart_accepted [where is_in_stock = is_in_stock and product = product and q = q
        and pid = pid and w = w, OF assms(1-3) _ _ _ assms(4)]
    by simp
  subgoal for pid q product w
    using add_to_cart_accepted [where is_in_stock = is_in_stock and product = product and q = q
        and pid = pid and w = w, OF assms(1-3) _ _ _ assms(4)]
    by simp
  subgoal for pid q product w
    using add_to_cart_accepted [where is_in_stock = is_in_stock and product = product and q = q
        and pid = pid and w = w, OF assms(1-3) _ _ _ assms(4)]
    by simp
  subgoal for iid q x line product
    using update_cart_item_cases [where line = line and product = product and q = q and x = x
        and iid = iid, OF assms(1-4)]
    by simp
  subgoal for iid q x line product
    using update_cart_item_cases [where line = line and product = product and q = q and x = x
        and iid = iid, OF assms(1-4)]
    by simp
  subgoal for iid q x line product
    using update_cart_item_cases [where line = line and product = product and q = q and x = x
        and iid = iid, OF assms(1-4)]
    by simp
  subgoal for iid q x line product
    using update_cart_item_cases [where line = line and product = product and q = q and x = x
        and iid = iid, OF assms(1-4)]
    by simp
  subgoal for iid q x line product
    using update_cart_item_cases [where line = line and product = product and q = q and x = x
        and iid = iid, OF assms(1-4)]
    by simp
  done

text \<open>
  With two units of product A (stock 100) in alice's cart: adding 99 caps the line at 100,
  adding 101 is refused for lack of stock, adding -5 or a new line of -1 fails and changes
  nothing, adding one unit of product B creates its line, updating to 100 is saved, updating
  to 0 removes the line.
\<close>

theorem cart_lines_within_stock_witness:
  "req_user (post_by alice) = Some alice \<and> is_buyer alice \<and> http_method (post_by alice) = POST
   \<and> fst (get_or_create_cart (post_by alice) (shop\<lparr>cart_items := [line_A]\<rparr>))
       = \<lparr>cart_id = 1, session_key = ''s1''\<rparr>
   \<and> find (\<lambda>p. product_id p = 1 \<and> is_active p) (products (shop\<lparr>cart_items := [line_A]\<rparr>)) = Some product_A
   \<and> map quantity (cart_items (snd (add_to_cart (\<lambda>p. 0 < quantity_in_stock p) (post_by alice)
         (Body (Some 1) (Some 99)) (shop\<lparr>cart_items := [line_A]\<rparr>)))) = [100]
   \<and> add_to_cart (\<lambda>p. 0 < quantity_in_stock p) (post_by alice)
         (Body (Some 1) (Some 101)) (shop\<lparr>cart_items := [line_A]\<rparr>)
       = (AddInsufficientStock, shop\<lparr>cart_items := [line_A]\<rparr>)
   \<and> add_to_cart (\<lambda>p. 0 < quantity_in_stock p) (post_by alice)
         (Body (Some 1) (Some (- 5))) (shop\<lparr>cart_items := [line_A]\<rparr>)
       = (AddException, shop\<lparr>cart_items := [line_A]\<rparr>)
   \<and> add_to_cart (\<lambda>p. 0 < quantity_in_stock p) (post_by alice) (Body (Some 2) (Some (- 1))) shop
       = (AddException, shop)
   \<and> map quantity (cart_items (snd (add_to_cart (\<lambda>p. 0 < quantity_in_stock p) (post_by alice)
         (Body (Some 2) (Some 1)) (shop\<lparr>cart_items := [line_A]\<rparr>)))) = [2, 1]
   \<and> map quantity (cart_items (snd (update_cart_item (post_by alice) 1
         (Body None (Some 100)) (shop\<lparr>cart_items := [line_A]\<rparr>)))) = [100]
   \<and> cart_items (snd (update_cart_item (post_by alice) 1
         (Body None (Some 0)) (shop\<lparr>cart_items := [line_A]\<rparr>))) = []"
  using cart_lines_within_stock [of "post_by alice" alice "\<lparr>cart_id = 1, session_key = ''s1''\<rparr>"
      "shop\<lparr>cart_items := [line_A]\<rparr>" "\<lambda>p. 0 < quantity_in_stock p"]
  by (simp add: add_to_cart_def update_cart_item_def example_defs view_defs)

text \<open>
  Claim C7 as the spec words it has both views clamp a request above the stock. They refuse
  it instead: asking to update the line of two units of product A (stock 100) to 150 leaves
  the line at 2, not 100, and asking to add two units of product B (stock 1) to an empty
  cart creates no line.
\<close>

theorem cart_requests_above_stock_are_refused:
  "update_cart_item (post_by alice) 1 (Body None (Some 150)) (shop\<lparr>cart_items := [line_A]\<rparr>)
     = (OnlyAvailable 100, shop\<lparr>cart_items := [line_A]\<rparr>)
   \<and> map quantity (cart_items (snd (update_cart_item (post_by alice) 1 (Body None (Some 150))
        (shop\<lparr>cart_items := [line_A]\<rparr>)))) = [2]
   \<and> quantity_in_stock product_A = 100
   \<and> add_to_cart (\<lambda>p. 0 < quantity_in_stock p) (post_by alice) (Body (Some 2) (Some 2)) shop
     = (AddInsufficientStock, shop)
   \<and> cart_items shop = []
   \<and> quantity_in_stock product_B = 1"
  by (simp add: add_to_cart_def update_cart_item_def example_defs view_defs)

section \<open>A checkout short of stock\<close>

text \<open>
  What holds of such a checkout: the answer names the product of the first line whose
  quantity exceeds the stock, and the cart and its lines are kept.
\<close>

lemma create_order_items_first_short:
  assumes "find (\<lambda>l. quantity_in_stock (snd l) < quantity (fst l)) lines = Some l"
  shows "fst (create_order_items order lines d) = Some (product_name (snd l))
       \<and> carts (snd (create_order_items order lines d)) = carts d
       \<and> cart_items (snd (create_order_items order lines d)) = cart_items d"
  using assms
proof (induction order lines d rule: create_order_items.induct)
  case (1 order d)
  then show ?case by simp
next
  case (2 order cart_item product rest d)
  then show ?case
    by (auto simp: Product_save_def OrderItem_create_def split: if_splits)
qed

lemma checkout_insufficient_stock_named:
  assumes "req_user request = Some u" and "is_buyer u" and "http_method request = POST"
    and "session_cart request d = Some cart"
    and "find (\<lambda>l. quantity_in_stock (snd l) < quantity (fst l))
           (select_related (Cart_items cart d) d) = Some l"
    and "addr \<noteq> []"
  shows "fst (checkout request (Some addr) d) = InsufficientStockError (product_name (snd l))
       \<and> carts (snd (checkout request (Some addr) d)) = carts d
       \<and> cart_items (snd (checkout request (Some addr) d)) = cart_items d"
proof -
  have ne: "select_related (Cart_items cart d) d \<noteq> []"
    using assms(5) by auto
  define od where "od = Order_create (user_id u) (get_total_price cart d) addr d"
  have od: "carts (snd od) = carts d" "cart_items (snd od) = cart_items d"
    by (simp_all add: od_def Order_create_def Let_def)
  show ?thesis
    using create_order_items_first_short [OF assms(5), of "fst od" "snd od"] od
    by (simp add: checkout_post [OF assms(1-4) ne assms(6)] Let_def od_def)
qed

text \<open>
  A checkout that completes stores an order whose total is the sum over its items of price
  at purchase times quantity (no earlier order item carrying the new order's identifier).
\<close>

lemma checkout_completed_total:
  assumes "req_user request = Some u" and "is_buyer u" and "http_method request = POST"
    and "session_cart request d = Some cart"
    and "select_related (Cart_items cart d) d \<noteq> []"
    and "\<forall>l \<in> set (select_related (Cart_items cart d) d). is_active (snd l)"
    and "\<forall>l \<in> set (select_related (Cart_items cart d) d). quantity (fst l) \<le> quantity_in_stock (snd l)"
    and "addr \<noteq> []"
    and "\<forall>oi \<in> set (order_items d). oi_order oi \<noteq> fresh_order_id d"
  shows "order_items_total (fresh_order_id d) (snd (checkout request (Some addr) d))
         = get_total_price cart d
       \<and> orders (snd (checkout request (Some addr) d)) = orders d @
           [\<lparr>order_id = fresh_order_id d, buyer = user_id u,
             total_amount = get_total_price cart d, shipping_address = addr,
             status = DefaultStatus\<rparr>]"
proof -
  define lines where "lines = select_related (Cart_items cart d) d"
  define od where "od = Order_create (user_id u) (get_total_price cart d) addr d"
  define r where "r = create_order_items (fst od) lines (snd od)"
  have od: "order_id (fst od) = fresh_order_id d" "order_items (snd od) = order_items d"
    "orders (snd od) = orders d @ [\<lparr>order_id = fresh_order_id d, buyer = user_id u,
             total_amount = get_total_price cart d, shipping_address = addr,
             status = DefaultStatus\<rparr>]"
    by (simp_all add: od_def Order_create_def Let_def)
  have loop: "fst r = None"
    "order_items (snd r) = order_items (snd od) @ map (order_item_of (fst od)) lines"
    "orders (snd r) = orders (snd od)"
    using create_order_items_enough_stock [of lines "fst od" "snd od"] assms(7)
    by (simp_all add: r_def lines_def)
  have co: "snd (checkout request (Some addr) d) = Cart_delete cart (snd r)"
    using loop(1) by (simp add: checkout_post [OF assms(1-5) assms(8)] Let_def od_def r_def lines_def)
  have old: "filter (\<lambda>oi. oi_order oi = fresh_order_id d) (order_items d) = []"
    using assms(9) by (auto simp: filter_empty_conv)
  have new: "filter (\<lambda>oi. oi_order oi = fresh_order_id d) (map (order_item_of (fst od)) lines)
             = map (order_item_of (fst od)) lines"
    by (simp add: order_item_of_def od(1) filter_map comp_def)
  have "CartItem_get_total_price = (\<lambda>l. price (snd l) * quantity (fst l))"
    by (rule ext) (simp add: CartItem_get_total_price_def)
  then have total: "get_total_price cart d = (\<Sum>l\<leftarrow>lines. price (snd l) * quantity (fst l))"
    using assms(6) by (simp add: get_total_price_def lines_def)
  have "order_items_total (fresh_order_id d) (Cart_delete cart (snd r)) = get_total_price cart d"
    by (simp add: order_items_total_def Cart_delete_def loop od old new total
        order_item_of_def comp_def)
  moreover have "orders (Cart_delete cart (snd r)) = orders (snd od)"
    by (simp add: Cart_delete_def loop)
  ultimately show ?thesis
    by (simp add: co od)
qed

text \<open>
  Claim C1 says that a checkout with a line above the stock creates no order and changes no
  stock. The view creates the order before its loop tests the first line, and returns from
  inside the loop without undoing what it wrote. With product B (stock 1) alone in the cart
  at quantity 2, the rejection names product B and the stock is still 1, but an order with
  the cart's total and no items has been stored. With product A (stock 100) at quantity 2
  before it, that order also has an item for product A, and the stock of A is 98.
\<close>

theorem checkout_insufficient_stock_leaves_order:
  "checkout (post_by alice) (Some ''123 Main St'') (shop\<lparr>cart_items := [line_B]\<rparr>) =
     (InsufficientStockError ''Product B'',
      \<lparr>products = [product_A, product_B],
        carts = [\<lparr>cart_id = 1, session_key = ''s1''\<rparr>],
        cart_items = [line_B],
        orders = [\<lparr>order_id = 1, buyer = 7, total_amount = 1000, shipping_address = ''1 High St'',
             status = Status ''delivered''\<rparr>,
                  \<lparr>order_id = 2, buyer = 7, total_amount = 1000, shipping_address = ''123 Main St'',
             status = DefaultStatus\<rparr>],
        order_items = [\<lparr>oi_order = 1, oi_product = 1, oi_quantity = 1, price_at_purchase = 1000\<rparr>],
        reviews = []\<rparr>)
   \<and> checkout (post_by alice) (Some ''123 Main St'') (shop\<lparr>cart_items := [line_A, line_B]\<rparr>) =
     (InsufficientStockError ''Product B'',
      \<lparr>products = [product_A\<lparr>quantity_in_stock := 98\<rparr>, product_B],
        carts = [\<lparr>cart_id = 1, session_key = ''s1''\<rparr>],
        cart_items = [line_A, line_B],
        orders = [\<lparr>order_id = 1, buyer = 7, total_amount = 1000, shipping_address = ''1 High St'',
             status = Status ''delivered''\<rparr>,
                  \<lparr>order_id = 2, buyer = 7, total_amount = 3000, shipping_address = ''123 Main St'',
             status = DefaultStatus\<rparr>],
        order_items = [\<lparr>oi_order = 1, oi_product = 1, oi_quantity = 1, price_at_purchase = 1000\<rparr>,
                       \<lparr>oi_order = 2, oi_product = 1, oi_quantity = 2, price_at_purchase = 1000\<rparr>],
        reviews = []\<rparr>)"
  by (simp add: checkout_def example_defs view_defs)

text \<open>
  Claim C3 says that every order a checkout leaves behind, one that stopped partway
  included, has as total the sum over its items of price at purchase times quantity. The
  order left by the checkout that stops at product B carries the whole cart's total, 30.00,
  while its only item, two units of product A at 10.00, sums to 20.00.
\<close>

theorem checkout_partial_order_total_differs:
  "map total_amount (filter (\<lambda>order. order_id order = 2)
      (orders (snd (checkout (post_by alice) (Some ''123 Main St'')
         (shop\<lparr>cart_items := [line_A, line_B]\<rparr>))))) = [3000]
   \<and> order_items_total 2 (snd (checkout (post_by alice) (Some ''123 Main St'')
         (shop\<lparr>cart_items := [line_A, line_B]\<rparr>))) = 2000"
  by (simp add: checkout_def order_items_total_def example_defs view_defs)

end
